theory Spec2Isabelle
  imports Main
begin

section \<open>git-istage: the data model of main.go\<close>

text \<open>
  The sources hold three revisions of \<^verbatim>\<open>main.go\<close>: one without a diff viewer, one with
  a diff viewer that does not scroll, and the latest, with a scrollable diff viewer. The
  development follows the latest revision. Go's \<^verbatim>\<open>int\<close> is modelled as \<^typ>\<open>int\<close>: every integer of
  the program is a terminal height, a number of files or a number of lines, far from
  the 64-bit bounds. Go strings are byte sequences, here \<^typ>\<open>string\<close>.
\<close>

datatype StagingStatus = Unstaged | Staged | PartiallyStaged

text \<open>The argument vector given to \<^verbatim>\<open>exec.Command\<close>.\<close>

type_synonym cmd = "string list"

text \<open>
  The external collaborator. Running an argument vector in a world \<open>w\<close> yields what the
  process did and a new world. \<open>stdout\<close> is what \<^verbatim>\<open>Output()\<close> returns,
  \<open>combined\<close> what \<^verbatim>\<open>CombinedOutput()\<close> returns, \<open>err\<close> is the text of the
  returned Go error (\<open>None\<close> for \<^verbatim>\<open>nil\<close>; a non-zero exit is
  \<open>Some ''exit status 1''\<close>), and \<open>spawned\<close> tells whether the process was started
  (it is not when the executable is missing).
\<close>

record proc =
  stdout :: string
  combined :: string
  err :: "string option"
  spawned :: bool

type_synonym 'w shell = "cmd \<Rightarrow> 'w \<Rightarrow> proc \<times> 'w"

text \<open>
  An \<^verbatim>\<open>*exec.Cmd\<close> stored in a file entry: its argument vector and whether its
  \<^verbatim>\<open>Process\<close> field is set. Package os/exec refuses to start a \<^verbatim>\<open>Cmd\<close> twice:
  \<^verbatim>\<open>Start\<close> returns the error "exec: already started" when \<^verbatim>\<open>c.Process != nil\<close>.
\<close>

record execCmd =
  args :: cmd
  started :: bool

definition Command :: "cmd \<Rightarrow> execCmd" where
  "Command a = \<lparr>args = a, started = False\<rparr>"

text \<open>\<^verbatim>\<open>c.Run()\<close>: the returned error, the command object afterwards, the new world.\<close>

definition Run :: "'w shell \<Rightarrow> execCmd \<Rightarrow> 'w \<Rightarrow> string option \<times> execCmd \<times> 'w" where
  "Run sh c w =
     (if started c then (Some ''exec: already started'', c, w)
      else (let (p, w') = sh (args c) w
            in (err p, c\<lparr>started := spawned p\<rparr>, w')))"

record fileEntry =
  name :: string
  status :: StagingStatus
  stageCmd :: execCmd
  unstageCmd :: execCmd

record model =
  files :: "fileEntry list"
  cursor :: int
  quitting :: bool
  diffMode :: bool
  diffContent :: string
  scrollOffset :: int
  viewportHeight :: int

text \<open>Run-time panics of the Go program are values.\<close>

datatype panic = IndexOutOfRange | SliceBoundsOutOfRange

text \<open>The Go \<^verbatim>\<open>error\<close> values that \<^verbatim>\<open>getGitChanges\<close> returns, by their message.\<close>

datatype error = Errorf string | ExecError string

fun errorText :: "error \<Rightarrow> string" where
  "errorText (Errorf s) = s"
| "errorText (ExecError s) = s"

subsection \<open>interpretGitStatus\<close>

definition interpretGitStatus :: "string \<Rightarrow> string \<Rightarrow> panic + (StagingStatus \<times> execCmd \<times> execCmd)" where
  "interpretGitStatus xy filename =
     (case xy of
        x # y # _ \<Rightarrow>
          Inr (if x = CHR ''?'' \<and> y = CHR ''?'' then
                 (Unstaged, Command [''git'', ''add'', filename], Command [''git'', ''rm'', ''--cached'', filename])
               else if x = CHR ''A'' \<and> y \<noteq> CHR '' '' then
                 (PartiallyStaged, Command [''git'', ''add'', filename], Command [''git'', ''rm'', ''--cached'', filename])
               else if x \<noteq> CHR '' '' \<and> y \<noteq> CHR '' '' then
                 (PartiallyStaged, Command [''git'', ''add'', filename], Command [''git'', ''restore'', ''--staged'', filename])
               else if x = CHR ''A'' then
                 (Staged, Command [''git'', ''add'', filename], Command [''git'', ''rm'', ''--cached'', filename])
               else if x \<noteq> CHR '' '' then
                 (Staged, Command [''git'', ''add'', filename], Command [''git'', ''restore'', ''--staged'', filename])
               else
                 (Unstaged, Command [''git'', ''add'', filename], Command [''git'', ''restore'', ''--staged'', filename]))
      | _ \<Rightarrow> Inl IndexOutOfRange)"

subsection \<open>getDiff\<close>

definition getDiff :: "'w shell \<Rightarrow> fileEntry \<Rightarrow> 'w \<Rightarrow> string \<times> 'w" where
  "getDiff sh f w =
     (let diffCmd = (case status f of
                       Staged \<Rightarrow> [''git'', ''d'', ''--staged'', name f]
                     | Unstaged \<Rightarrow> [''git'', ''d'', name f]
                     | PartiallyStaged \<Rightarrow> [''git'', ''d'', ''HEAD'', name f]);
          (p, w') = sh diffCmd w
      in (case err p of
            Some e \<Rightarrow> (''Failed to show diff: '' @ e, w')
          | None \<Rightarrow> (combined p, w')))"

subsection \<open>The string functions of Go's library that the program calls\<close>

text \<open>\<^verbatim>\<open>strings.Split(s, "\n")\<close>: the pieces between the newlines; never empty.\<close>

fun splitLines :: "string \<Rightarrow> string list" where
  "splitLines [] = [[]]"
| "splitLines (c # cs) =
     (if c = CHR 0x0A then [] # splitLines cs
      else (case splitLines cs of
              l # ls \<Rightarrow> (c # l) # ls
            | [] \<Rightarrow> [[c]]))"

text \<open>
  \<^verbatim>\<open>strings.TrimSpace\<close> removes leading and trailing Unicode white space. On the
  UTF-8 bytes of a Go string these are the six ASCII characters and the encodings of
  U+0085, U+00A0, U+1680, U+2000 to U+200A, U+2028, U+2029, U+202F, U+205F and U+3000.
\<close>

definition spaceRunes :: "string list" where
  "spaceRunes =
     [[CHR 0x09], [CHR 0x0A], [CHR 0x0B], [CHR 0x0C], [CHR 0x0D], [CHR 0x20],
      [CHR 0xC2, CHR 0x85], [CHR 0xC2, CHR 0xA0],
      [CHR 0xE1, CHR 0x9A, CHR 0x80],
      [CHR 0xE2, CHR 0x80, CHR 0x80], [CHR 0xE2, CHR 0x80, CHR 0x81],
      [CHR 0xE2, CHR 0x80, CHR 0x82], [CHR 0xE2, CHR 0x80, CHR 0x83],
      [CHR 0xE2, CHR 0x80, CHR 0x84], [CHR 0xE2, CHR 0x80, CHR 0x85],
      [CHR 0xE2, CHR 0x80, CHR 0x86], [CHR 0xE2, CHR 0x80, CHR 0x87],
      [CHR 0xE2, CHR 0x80, CHR 0x88], [CHR 0xE2, CHR 0x80, CHR 0x89],
      [CHR 0xE2, CHR 0x80, CHR 0x8A],
      [CHR 0xE2, CHR 0x80, CHR 0xA8], [CHR 0xE2, CHR 0x80, CHR 0xA9],
      [CHR 0xE2, CHR 0x80, CHR 0xAF],
      [CHR 0xE2, CHR 0x81, CHR 0x9F],
      [CHR 0xE3, CHR 0x80, CHR 0x80]]"

fun isPrefixOf :: "string \<Rightarrow> string \<Rightarrow> bool" where
  "isPrefixOf [] _ = True"
| "isPrefixOf (p # ps) [] = False"
| "isPrefixOf (p # ps) (c # cs) = (p = c \<and> isPrefixOf ps cs)"

text \<open>The number of bytes of the white-space rune that \<open>s\<close> starts with, 0 if none.\<close>

definition leadingSpace :: "string list \<Rightarrow> string \<Rightarrow> nat" where
  "leadingSpace runes s =
     (case filter (\<lambda>r. isPrefixOf r s) runes of [] \<Rightarrow> 0 | r # _ \<Rightarrow> length r)"

function trimLeftWith :: "string list \<Rightarrow> string \<Rightarrow> string" where
  "trimLeftWith runes s =
     (if leadingSpace runes s = 0 then s
      else trimLeftWith runes (drop (leadingSpace runes s) s))"
  by pat_completeness auto
termination
proof (relation "measure (\<lambda>(runes, s). length s)")
  show "wf (measure (\<lambda>(runes, s). length s))" by simp
next
  fix runes :: "string list" and s :: string
  assume pos: "leadingSpace runes s \<noteq> 0"
  have pre: "\<And>r t. isPrefixOf r t \<Longrightarrow> length r \<le> length t"
  proof -
    fix r t show "isPrefixOf r t \<Longrightarrow> length r \<le> length t"
      by (induction r t rule: isPrefixOf.induct) auto
  qed
  from pos obtain r rs where fr: "filter (\<lambda>r. isPrefixOf r s) runes = r # rs"
    and len: "leadingSpace runes s = length r"
    by (auto simp: leadingSpace_def split: list.splits)
  from fr have "r \<in> set (filter (\<lambda>r. isPrefixOf r s) runes)" by simp
  then have "isPrefixOf r s" by simp
  with pre have "length r \<le> length s" by blast
  with pos len have "0 < leadingSpace runes s \<and> leadingSpace runes s \<le> length s"
    by simp
  then have "length s - leadingSpace runes s < length s" by arith
  then have "length (drop (leadingSpace runes s) s) < length s"
    by (simp only: length_drop)
  then show "((runes, drop (leadingSpace runes s) s), (runes, s)) \<in> measure (\<lambda>(runes, s). length s)"
    by simp
qed

declare trimLeftWith.simps [simp del]

definition TrimSpace :: "string \<Rightarrow> string" where
  "TrimSpace s =
     rev (trimLeftWith (map rev spaceRunes) (rev (trimLeftWith spaceRunes s)))"

text \<open>\<^verbatim>\<open>strings.Join(xs, sep)\<close>.\<close>

fun Join :: "string list \<Rightarrow> string \<Rightarrow> string" where
  "Join [] sep = []"
| "Join [x] sep = x"
| "Join (x # y # ys) sep = x @ sep @ Join (y # ys) sep"

text \<open>The verb \<^verbatim>\<open>%d\<close> of \<^verbatim>\<open>fmt.Sprintf\<close>.\<close>

fun showNat :: "nat \<Rightarrow> string" where
  "showNat n =
     (if n < 10 then [char_of (48 + n)]
      else showNat (n div 10) @ [char_of (48 + n mod 10)])"

declare showNat.simps [simp del]

definition showInt :: "int \<Rightarrow> string" where
  "showInt i = (if i < 0 then CHR ''-'' # showNat (nat (- i)) else showNat (nat i))"

text \<open>Go's integer division truncates towards zero.\<close>

definition goDiv :: "int \<Rightarrow> int \<Rightarrow> int" where
  "goDiv a b = sgn a * sgn b * (\<bar>a\<bar> div \<bar>b\<bar>)"

subsection \<open>getGitChanges\<close>

text \<open>The loop over the lines of the status output, \<open>acc\<close> being \<^verbatim>\<open>files\<close>.\<close>

fun statusLoop :: "fileEntry list \<Rightarrow> string list \<Rightarrow> panic + fileEntry list" where
  "statusLoop acc [] = Inr acc"
| "statusLoop acc (line # rest) =
     (if length line < 4 then statusLoop acc rest
      else (let xy = take 2 line;
                filename = TrimSpace (drop 3 line)
            in (case interpretGitStatus xy filename of
                  Inl p \<Rightarrow> Inl p
                | Inr (stagingStatus, stage, unstage) \<Rightarrow>
                    statusLoop
                      (acc @ [\<lparr>name = filename, status = stagingStatus,
                               stageCmd = stage, unstageCmd = unstage\<rparr>])
                      rest)))"

definition getGitChanges :: "'w shell \<Rightarrow> 'w \<Rightarrow> (panic + (error + fileEntry list)) \<times> 'w" where
  "getGitChanges sh w =
     (let (chk, w1) = sh [''git'', ''rev-parse'', ''--is-inside-work-tree''] w
      in if err chk \<noteq> None \<or> TrimSpace (stdout chk) \<noteq> ''true'' then
           (Inr (Inl (Errorf ''Not inside a git repository'')), w1)
         else
           (let (st, w2) = sh [''git'', ''status'', ''--porcelain''] w1
            in (case err st of
                  Some e \<Rightarrow> (Inr (Inl (ExecError e)), w2)
                | None \<Rightarrow>
                    (case statusLoop [] (splitLines (stdout st)) of
                       Inl p \<Rightarrow> (Inl p, w2)
                     | Inr fs \<Rightarrow> (Inr (Inr fs), w2)))))"

subsection \<open>The interaction state machine\<close>

definition getMaxScroll :: "model \<Rightarrow> int" where
  "getMaxScroll m =
     (let lines = int (length (splitLines (diffContent m)))
      in if lines > viewportHeight m then lines - viewportHeight m else 0)"

definition moveCursorUp :: "model \<Rightarrow> model" where
  "moveCursorUp m =
     (if cursor m > 0 then m\<lparr>cursor := cursor m - 1, scrollOffset := 0\<rparr> else m)"

definition moveCursorDown :: "model \<Rightarrow> model" where
  "moveCursorDown m =
     (if cursor m < int (length (files m)) - 1
      then m\<lparr>cursor := cursor m + 1, scrollOffset := 0\<rparr> else m)"

text \<open>The messages of the bubbletea run-time and the commands handed back to it.\<close>

datatype msg = WindowSizeMsg (Width: int) (Height: int) | KeyMsg string | OtherMsg

datatype teaCmd = Quit | EnterAltScreen

definition Init :: "model \<Rightarrow> teaCmd option" where
  "Init m = Some EnterAltScreen"

text \<open>The index expression \<^verbatim>\<open>m.files[m.cursor]\<close>, which panics out of range.\<close>

definition filesAtCursor :: "model \<Rightarrow> panic + fileEntry" where
  "filesAtCursor m =
     (if 0 \<le> cursor m \<and> cursor m < int (length (files m))
      then Inr (files m ! nat (cursor m)) else Inl IndexOutOfRange)"

text \<open>
  The inner \<^verbatim>\<open>switch msg.String()\<close> of \<^verbatim>\<open>Update\<close>, for the keys other than the two
  quit keys (which return at once): the model and the world when the switch is left.
\<close>

definition keySwitch :: "'w shell \<Rightarrow> model \<Rightarrow> string \<Rightarrow> 'w \<Rightarrow> panic + (model \<times> 'w)" where
  "keySwitch sh m k w =
     (if k = ''up'' then
        Inr (if diffMode m then
               (if scrollOffset m > 0 then m\<lparr>scrollOffset := scrollOffset m - 1\<rparr>
                else moveCursorUp m)
             else moveCursorUp m, w)
      else if k = ''down'' then
        Inr (if diffMode m then
               (if scrollOffset m < getMaxScroll m then m\<lparr>scrollOffset := scrollOffset m + 1\<rparr>
                else moveCursorDown m)
             else moveCursorDown m, w)
      else if k = ''pgdown'' then
        Inr (if diffMode m then
               (let maxScroll = getMaxScroll m;
                    newScrollOffset = scrollOffset m + goDiv (viewportHeight m) 2
                in m\<lparr>scrollOffset :=
                       (if newScrollOffset > maxScroll then maxScroll else newScrollOffset)\<rparr>)
             else m, w)
      else if k = ''pgup'' then
        Inr (if diffMode m then
               (let newScrollOffset = scrollOffset m - goDiv (viewportHeight m) 2
                in m\<lparr>scrollOffset := (if newScrollOffset < 0 then 0 else newScrollOffset)\<rparr>)
             else m, w)
      else if k = '' '' then
        (if diffMode m then Inr (m, w)
         else (case filesAtCursor m of
                 Inl p \<Rightarrow> Inl p
               | Inr f \<Rightarrow>
                   (case status f of
                      Staged \<Rightarrow>
                        (let (e, c, w') = Run sh (unstageCmd f) w
                         in Inr (m\<lparr>files := (files m)
                                   [nat (cursor m) := f\<lparr>unstageCmd := c, status := Unstaged\<rparr>]\<rparr>, w'))
                    | _ \<Rightarrow>
                        (let (e, c, w') = Run sh (stageCmd f) w
                         in Inr (m\<lparr>files := (files m)
                                   [nat (cursor m) := f\<lparr>stageCmd := c, status := Staged\<rparr>]\<rparr>, w')))))
      else if k = ''d'' then Inr (m\<lparr>diffMode := \<not> diffMode m\<rparr>, w)
      else if k = ''g'' then
        Inr (if diffMode m then m\<lparr>scrollOffset := 0\<rparr> else m, w)
      else if k = ''G'' then
        Inr (if diffMode m then m\<lparr>scrollOffset := getMaxScroll m\<rparr> else m, w)
      else Inr (m, w))"

definition Update :: "'w shell \<Rightarrow> model \<Rightarrow> msg \<Rightarrow> 'w \<Rightarrow> panic + (model \<times> teaCmd option \<times> 'w)" where
  "Update sh m ms w =
     (case ms of
        WindowSizeMsg wd ht \<Rightarrow>
          Inr (m\<lparr>viewportHeight := ht - int (length (files m)) - 1\<rparr>, None, w)
      | KeyMsg k \<Rightarrow>
          (if k = ''ctrl+c'' \<or> k = ''q'' then Inr (m\<lparr>quitting := True\<rparr>, Some Quit, w)
           else (case keySwitch sh m k w of
                   Inl p \<Rightarrow> Inl p
                 | Inr (m1, w1) \<Rightarrow>
                     (if diffMode m1 then
                        (case filesAtCursor m1 of
                           Inl p \<Rightarrow> Inl p
                         | Inr f \<Rightarrow>
                             (let (txt, w2) = getDiff sh f w1
                              in Inr (m1\<lparr>diffContent := txt\<rparr>, None, w2)))
                      else Inr (m1, None, w1))))
      | OtherMsg \<Rightarrow> Inr (m, None, w))"

subsection \<open>View\<close>

text \<open>
  The three lipgloss styles are package-level values whose \<^verbatim>\<open>Render\<close> depends on the
  terminal; the renderer takes them as a parameter.
\<close>

record styles =
  cursorStyle :: "string \<Rightarrow> string"
  stagedStyle :: "string \<Rightarrow> string"
  unstagedStyle :: "string \<Rightarrow> string"

text \<open>The UTF-8 bytes of the arrows and of the check mark in the program's literals.\<close>

definition upArrow :: string where
  "upArrow = [CHR 0xE2, CHR 0x86, CHR 0x91]"

definition downArrow :: string where
  "downArrow = [CHR 0xE2, CHR 0x86, CHR 0x93]"

definition checkMark :: string where
  "checkMark = [CHR 0xE2, CHR 0x9C, CHR 0x93]"

definition newline :: string where
  "newline = [CHR 0x0A]"

definition fileRow :: "styles \<Rightarrow> model \<Rightarrow> nat \<times> fileEntry \<Rightarrow> string" where
  "fileRow st m = (\<lambda>(i, f).
     (let cur = (if int i = cursor m then cursorStyle st ''> '' else cursorStyle st ''  '');
          checkbox = (case status f of
                        Staged \<Rightarrow> stagedStyle st (''['' @ checkMark @ '']'')
                      | PartiallyStaged \<Rightarrow> unstagedStyle st ''[~]''
                      | Unstaged \<Rightarrow> unstagedStyle st ''[ ]'')
      in cur @ checkbox @ '' '' @ name f @ newline))"

text \<open>
  The slice expression \<^verbatim>\<open>lines[m.scrollOffset:end]\<close> panics unless
  \<^verbatim>\<open>0 <= m.scrollOffset <= end <= cap(lines)\<close>; \<^verbatim>\<open>end\<close> has been clamped to
  \<^verbatim>\<open>len(lines)\<close> before.
\<close>

definition View :: "styles \<Rightarrow> model \<Rightarrow> panic + string" where
  "View st m =
     (if quitting m then Inr []
      else if diffMode m then
        (let lines = splitLines (diffContent m);
             end0 = scrollOffset m + viewportHeight m;
             end1 = (if end0 > int (length lines) then int (length lines) else end0)
         in if scrollOffset m < 0 \<or> end1 < scrollOffset m then Inl SliceBoundsOutOfRange
            else
              (let visibleLines = take (nat end1 - nat (scrollOffset m))
                                       (drop (nat (scrollOffset m)) lines)
               in Inr (Join visibleLines newline @
                       newline @ upArrow @ ''/'' @ downArrow @ ''/PageUp/PageDown scroll ('' @
                       showInt end1 @ ''/'' @ showInt (int (length lines)) @
                       '')  g: top  G: bottom  d: back  q: quit'' @ newline)))
      else
        Inr (concat (map (fileRow st m) (zip [0 ..< length (files m)] (files m))) @
             newline @ upArrow @ ''/'' @ downArrow @
             '': navigate  space: toggle  d: diff  q: quit'' @ newline))"

subsection \<open>main and the event loop\<close>

text \<open>
  What \<^verbatim>\<open>main\<close> does before it hands over to bubbletea: it prints and exits with a
  code, or it starts the program on an initial model (\<^verbatim>\<open>tea.NewProgram(m).Run()\<close>).
\<close>

datatype startup = Exit (printed: "string list") (code: int) | Panicked panic | RunProgram model

definition initialModel :: "fileEntry list \<Rightarrow> model" where
  "initialModel fs =
     \<lparr>files = fs, cursor = 0, quitting = False, diffMode = False, diffContent = [],
      scrollOffset = 0, viewportHeight = 0\<rparr>"

definition main :: "'w shell \<Rightarrow> 'w \<Rightarrow> startup \<times> 'w" where
  "main sh w =
     (case getGitChanges sh w of
        (Inl p, w') \<Rightarrow> (Panicked p, w')
      | (Inr (Inl e), w') \<Rightarrow> (Exit [''Error: '' @ errorText e] 1, w')
      | (Inr (Inr fs), w') \<Rightarrow>
          (if length fs = 0 then (Exit [''No changes to stage or unstage.''] 0, w')
           else (RunProgram (initialModel fs), w')))"

text \<open>
  The event loop of bubbletea, as far as the program sees it: every message goes through
  \<open>Update\<close>, the frame is drawn by \<open>View\<close> after each message, and the loop ends at
  \<^verbatim>\<open>tea.Quit\<close>. A panic of \<open>Update\<close> or \<open>View\<close> ends the run.
\<close>

fun runLoop :: "'w shell \<Rightarrow> styles \<Rightarrow> model \<Rightarrow> msg list \<Rightarrow> 'w \<Rightarrow> panic + (model \<times> 'w)" where
  "runLoop sh st m [] w = Inr (m, w)"
| "runLoop sh st m (e # es) w =
     (case Update sh m e w of
        Inl p \<Rightarrow> Inl p
      | Inr (m', c, w') \<Rightarrow>
          (case View st m' of
             Inl p \<Rightarrow> Inl p
           | Inr frame \<Rightarrow> (if c = Some Quit then Inr (m', w') else runLoop sh st m' es w')))"

text \<open>The same messages through \<open>Update\<close> alone, without drawing.\<close>

fun updates :: "'w shell \<Rightarrow> model \<Rightarrow> msg list \<Rightarrow> 'w \<Rightarrow> panic + (model \<times> 'w)" where
  "updates sh m [] w = Inr (m, w)"
| "updates sh m (e # es) w =
     (case Update sh m e w of
        Inl p \<Rightarrow> Inl p
      | Inr (m', c, w') \<Rightarrow> (if c = Some Quit then Inr (m', w') else updates sh m' es w'))"

subsection \<open>The cursor keys of the first revision\<close>

text \<open>
  The first revision of \<^verbatim>\<open>main.go\<close> has no diff viewer, and the cases \<^verbatim>\<open>"up"\<close> and
  \<^verbatim>\<open>"down"\<close> of its \<^verbatim>\<open>Update\<close> assign the cursor directly.
\<close>

definition upRev1 :: "model \<Rightarrow> model" where
  "upRev1 m =
     (if cursor m > 0 then m\<lparr>cursor := cursor m - 1\<rparr>
      else m\<lparr>cursor := int (length (files m)) - 1\<rparr>)"

definition downRev1 :: "model \<Rightarrow> model" where
  "downRev1 m =
     (if cursor m < int (length (files m)) - 1 then m\<lparr>cursor := cursor m + 1\<rparr>
      else m\<lparr>cursor := 0\<rparr>)"

section \<open>The decision table of the specification (section 4.1), in its own words\<close>

text \<open>
  A row of the table constrains each side of the status code: a given character,
  any character but the space, or the space.
\<close>

datatype side = Exactly char | NonSpace | Space

fun sideMatches :: "side \<Rightarrow> char \<Rightarrow> bool" where
  "sideMatches (Exactly c) a = (a = c)"
| "sideMatches NonSpace a = (a \<noteq> CHR '' '')"
| "sideMatches Space a = (a = CHR '' '')"

datatype action = AddFile | RemoveFromIndex | RevertIndexToHEAD

text \<open>The six rows, top to bottom: x, y, classification, stage action, unstage action.\<close>

definition decisionTable :: "(side \<times> side \<times> StagingStatus \<times> action \<times> action) list" where
  "decisionTable =
     [(Exactly (CHR ''?''), Exactly (CHR ''?''), Unstaged, AddFile, RemoveFromIndex),
      (Exactly (CHR ''A''), NonSpace, PartiallyStaged, AddFile, RemoveFromIndex),
      (NonSpace, NonSpace, PartiallyStaged, AddFile, RevertIndexToHEAD),
      (Exactly (CHR ''A''), Space, Staged, AddFile, RemoveFromIndex),
      (NonSpace, Space, Staged, AddFile, RevertIndexToHEAD),
      (Space, NonSpace, Unstaged, AddFile, RevertIndexToHEAD)]"

text \<open>The first row that matches, rows being tried in the order of the table.\<close>

fun firstRow :: "(side \<times> side \<times> StagingStatus \<times> action \<times> action) list \<Rightarrow> char \<Rightarrow> char
    \<Rightarrow> (StagingStatus \<times> action \<times> action) option" where
  "firstRow [] x y = None"
| "firstRow ((px, py, r) # rows) x y =
     (if sideMatches px x \<and> sideMatches py y then Some r else firstRow rows x y)"

text \<open>The collaborator invocation that carries out an action on a file.\<close>

fun actionCommand :: "action \<Rightarrow> string \<Rightarrow> execCmd" where
  "actionCommand AddFile filename = Command [''git'', ''add'', filename]"
| "actionCommand RemoveFromIndex filename = Command [''git'', ''rm'', ''--cached'', filename]"
| "actionCommand RevertIndexToHEAD filename = Command [''git'', ''restore'', ''--staged'', filename]"

section \<open>Concrete inputs\<close>

text \<open>A collaborator that succeeds silently, whatever the command.\<close>

definition quietShell :: "unit shell" where
  "quietShell c w = (\<lparr>stdout = [], combined = [], err = None, spawned = True\<rparr>, w)"

text \<open>The entries that the loader builds for the lines \<open>?? a.txt\<close> and \<open> M b.txt\<close>.\<close>

definition twoFiles :: "fileEntry list" where
  "twoFiles =
     [\<lparr>name = ''a.txt'', status = Unstaged,
       stageCmd = Command [''git'', ''add'', ''a.txt''],
       unstageCmd = Command [''git'', ''rm'', ''--cached'', ''a.txt'']\<rparr>,
      \<lparr>name = ''b.txt'', status = Unstaged,
       stageCmd = Command [''git'', ''add'', ''b.txt''],
       unstageCmd = Command [''git'', ''restore'', ''--staged'', ''b.txt'']\<rparr>]"

text \<open>A collaborator that succeeds and records every command it is given, in order.\<close>

definition loggingShell :: "(cmd list) shell" where
  "loggingShell c w = (\<lparr>stdout = [], combined = [], err = None, spawned = True\<rparr>, w @ [c])"

text \<open>
  A collaborator observed: \<open>traced sh\<close> behaves as \<open>sh\<close> and appends every command it is
  given to a log kept beside the world.
\<close>

definition traced :: "'w shell \<Rightarrow> ('w \<times> cmd list) shell" where
  "traced sh c = (\<lambda>(w, log). (let (p, w') = sh c w in (p, (w', log @ [c]))))"

text \<open>A collaborator whose every command exits with status 128.\<close>

definition failingShell :: "unit shell" where
  "failingShell c w =
     (\<lparr>stdout = [], combined = ''fatal: not a git repository'',
       err = Some ''exit status 128'', spawned = True\<rparr>, w)"

text \<open>
  A repository without changes: the work-tree check prints \<open>true\<close> and a newline, the
  status query prints nothing.
\<close>

definition cleanRepoShell :: "unit shell" where
  "cleanRepoShell c w =
     (if c = [''git'', ''rev-parse'', ''--is-inside-work-tree'']
      then (\<lparr>stdout = ''true'' @ [CHR 0x0A], combined = ''true'' @ [CHR 0x0A],
             err = None, spawned = True\<rparr>, w)
      else (\<lparr>stdout = [], combined = [], err = None, spawned = True\<rparr>, w))"

text \<open>A collaborator whose every command prints the three lines \<open>a\<close>, \<open>b\<close>, \<open>c\<close>.\<close>

definition threeLineShell :: "unit shell" where
  "threeLineShell c w =
     (\<lparr>stdout = [CHR ''a'', CHR 0x0A, CHR ''b'', CHR 0x0A, CHR ''c''],
       combined = [CHR ''a'', CHR 0x0A, CHR ''b'', CHR 0x0A, CHR ''c''],
       err = None, spawned = True\<rparr>, w)"

text \<open>
  A file that was added and not committed (status \<open>A\<close> and a space): its staged diff has
  three lines, and once it is removed from the index it is untracked and its diff is empty.
\<close>

definition addedFile :: "fileEntry list" where
  "addedFile =
     [\<lparr>name = ''new.txt'', status = Staged,
       stageCmd = Command [''git'', ''add'', ''new.txt''],
       unstageCmd = Command [''git'', ''rm'', ''--cached'', ''new.txt'']\<rparr>]"

definition addedFileShell :: "unit shell" where
  "addedFileShell c w =
     (if c = [''git'', ''d'', ''--staged'', ''new.txt'']
      then (\<lparr>stdout = [CHR ''a'', CHR 0x0A, CHR ''b'', CHR 0x0A, CHR ''c''],
             combined = [CHR ''a'', CHR 0x0A, CHR ''b'', CHR 0x0A, CHR ''c''],
             err = None, spawned = True\<rparr>, w)
      else (\<lparr>stdout = [], combined = [], err = None, spawned = True\<rparr>, w))"

text \<open>Thirty changed files, \<open>f0\<close> to \<open>f29\<close>, all modified in the work tree.\<close>

definition thirtyFiles :: "fileEntry list" where
  "thirtyFiles =
     map (\<lambda>i. \<lparr>name = ''f'' @ showNat i, status = Unstaged,
                stageCmd = Command [''git'', ''add'', ''f'' @ showNat i],
                unstageCmd = Command [''git'', ''restore'', ''--staged'', ''f'' @ showNat i]\<rparr>)
         [0 ..< 30]"

text \<open>The styles of a terminal without colours: \<^verbatim>\<open>Render\<close> returns its argument.\<close>

definition plainStyles :: styles where
  "plainStyles = \<lparr>cursorStyle = (\<lambda>s. s), stagedStyle = (\<lambda>s. s), unstagedStyle = (\<lambda>s. s)\<rparr>"

text \<open>
  The diff viewer showing a text of forty empty lines in a viewport of twenty lines.
\<close>

definition fortyLines :: string where
  "fortyLines = replicate 39 (CHR 0x0A)"

definition fortyLineShell :: "unit shell" where
  "fortyLineShell c w =
     (\<lparr>stdout = fortyLines, combined = fortyLines, err = None, spawned = True\<rparr>, w)"

definition viewingFortyLines :: model where
  "viewingFortyLines =
     \<lparr>files = twoFiles, cursor = 0, quitting = False, diffMode = True,
      diffContent = fortyLines, scrollOffset = 0, viewportHeight = 20\<rparr>"

section \<open>The scroll invariant\<close>



section \<open>Theorems\<close>

subsection \<open>C1: the status interpreter follows the decision table\<close>

lemma firstRow_decisionTable:
  "firstRow decisionTable x y =
     (if x = CHR ''?'' \<and> y = CHR ''?'' then Some (Unstaged, AddFile, RemoveFromIndex)
      else if x = CHR ''A'' \<and> y \<noteq> CHR '' '' then Some (PartiallyStaged, AddFile, RemoveFromIndex)
      else if x \<noteq> CHR '' '' \<and> y \<noteq> CHR '' '' then Some (PartiallyStaged, AddFile, RevertIndexToHEAD)
      else if x = CHR ''A'' then Some (Staged, AddFile, RemoveFromIndex)
      else if x \<noteq> CHR '' '' then Some (Staged, AddFile, RevertIndexToHEAD)
      else if y \<noteq> CHR '' '' then Some (Unstaged, AddFile, RevertIndexToHEAD)
      else None)"
  by (simp add: decisionTable_def)

text \<open>
  C1. For every status code of two characters \<open>x\<close>, \<open>y\<close> and every file name,
  \<open>interpretGitStatus\<close> returns one result, and it is the classification and the pair of
  actions of the first row of the table of section 4.1 that matches; a row matches every
  code but the one of two spaces (which \<^verbatim>\<open>git status --porcelain\<close> never prints). The
  rows for \<open>??\<close> and for \<open>A\<close> with a change in the work tree come before the row for two
  changed sides: \<open>AM\<close> is PartiallyStaged and \<open>A\<close> followed by a space is Staged, both with
  \<^verbatim>\<open>git rm --cached\<close> as the unstage action, not \<^verbatim>\<open>git restore --staged\<close>.
\<close>

theorem interpretGitStatus_decision_table:
  "(\<forall>c s u. firstRow decisionTable x y = Some (c, s, u) \<longrightarrow>
      interpretGitStatus [x, y] filename =
        Inr (c, actionCommand s filename, actionCommand u filename)) \<and>
   (firstRow decisionTable x y = None \<longleftrightarrow> x = CHR '' '' \<and> y = CHR '' '') \<and>
   (\<exists>!r. interpretGitStatus [x, y] filename = Inr r) \<and>
   interpretGitStatus ''AM'' filename =
     Inr (PartiallyStaged, actionCommand AddFile filename, actionCommand RemoveFromIndex filename) \<and>
   interpretGitStatus ''A '' filename =
     Inr (Staged, actionCommand AddFile filename, actionCommand RemoveFromIndex filename) \<and>
   interpretGitStatus ''??'' filename =
     Inr (Unstaged, actionCommand AddFile filename, actionCommand RemoveFromIndex filename)"
proof (intro conjI)
  show "\<forall>c s u. firstRow decisionTable x y = Some (c, s, u) \<longrightarrow>
      interpretGitStatus [x, y] filename =
        Inr (c, actionCommand s filename, actionCommand u filename)"
    unfolding firstRow_decisionTable
    by (auto simp: interpretGitStatus_def split: if_splits)
  show "firstRow decisionTable x y = None \<longleftrightarrow> x = CHR '' '' \<and> y = CHR '' ''"
    unfolding firstRow_decisionTable by auto
  show "\<exists>!r. interpretGitStatus [x, y] filename = Inr r"
    by (simp add: interpretGitStatus_def)
qed (simp_all add: interpretGitStatus_def)

theorem interpretGitStatus_decision_table_witness:
  "firstRow decisionTable (CHR ''M'') (CHR ''M'') =
     Some (PartiallyStaged, AddFile, RevertIndexToHEAD) \<and>
   interpretGitStatus ''MM'' ''a.txt'' =
     Inr (PartiallyStaged, Command [''git'', ''add'', ''a.txt''],
          Command [''git'', ''restore'', ''--staged'', ''a.txt''])"
proof -
  have row: "firstRow decisionTable (CHR ''M'') (CHR ''M'') =
     Some (PartiallyStaged, AddFile, RevertIndexToHEAD)"
    by (simp add: decisionTable_def)
  from interpretGitStatus_decision_table [of "CHR ''M''" "CHR ''M''" "''a.txt''"] row
  show ?thesis by simp
qed

subsection \<open>C2: the cursor keys in the file list\<close>

lemma Update_up_browsing:
  "\<not> diffMode m \<Longrightarrow> Update sh m (KeyMsg ''up'') w = Inr (moveCursorUp m, None, w)"
  by (simp add: Update_def keySwitch_def moveCursorUp_def)

lemma Update_down_browsing:
  "\<not> diffMode m \<Longrightarrow> Update sh m (KeyMsg ''down'') w = Inr (moveCursorDown m, None, w)"
  by (simp add: Update_def keySwitch_def moveCursorDown_def)

lemma updates_up_browsing:
  "\<not> diffMode m \<Longrightarrow> 0 \<le> cursor m \<Longrightarrow>
   \<exists>m'. updates sh m (replicate k (KeyMsg ''up'')) w = Inr (m', w) \<and>
        cursor m' = max 0 (cursor m - int k) \<and> files m' = files m \<and> \<not> diffMode m'"
proof (induction k arbitrary: m)
  case 0
  then show ?case by simp
next
  case (Suc k)
  let ?m1 = "moveCursorUp m"
  have step: "Update sh m (KeyMsg ''up'') w = Inr (?m1, None, w)"
    using Suc.prems(1) by (rule Update_up_browsing)
  have m1: "\<not> diffMode ?m1" "0 \<le> cursor ?m1" "files ?m1 = files m"
    "cursor ?m1 = max 0 (cursor m - 1)"
    using Suc.prems by (auto simp: moveCursorUp_def)
  from Suc.IH [OF m1(1) m1(2)] obtain m' where
    "updates sh ?m1 (replicate k (KeyMsg ''up'')) w = Inr (m', w)"
    "cursor m' = max 0 (cursor ?m1 - int k)" "files m' = files ?m1" "\<not> diffMode m'"
    by blast
  with step m1 show ?case by auto
qed

lemma updates_down_browsing:
  "\<not> diffMode m \<Longrightarrow> cursor m < int (length (files m)) \<Longrightarrow>
   \<exists>m'. updates sh m (replicate k (KeyMsg ''down'')) w = Inr (m', w) \<and>
        cursor m' = min (int (length (files m)) - 1) (cursor m + int k) \<and>
        files m' = files m \<and> \<not> diffMode m'"
proof (induction k arbitrary: m)
  case 0
  then show ?case by auto
next
  case (Suc k)
  let ?m1 = "moveCursorDown m"
  have step: "Update sh m (KeyMsg ''down'') w = Inr (?m1, None, w)"
    using Suc.prems(1) by (rule Update_down_browsing)
  have m1: "\<not> diffMode ?m1" "files ?m1 = files m"
    "cursor ?m1 < int (length (files ?m1))"
    "cursor ?m1 = min (int (length (files m)) - 1) (cursor m + 1)"
    using Suc.prems by (auto simp: moveCursorDown_def)
  from Suc.IH [OF m1(1) m1(3)] obtain m' where
    "updates sh ?m1 (replicate k (KeyMsg ''down'')) w = Inr (m', w)"
    "cursor m' = min (int (length (files ?m1)) - 1) (cursor ?m1 + int k)"
    "files m' = files ?m1" "\<not> diffMode m'"
    by blast
  with step m1 show ?case by auto
qed

text \<open>
  The first revision of the program wrapped the cursor around; the revisions with a diff
  viewer replaced the assignments by \<open>moveCursorUp\<close> and \<open>moveCursorDown\<close>.
\<close>

lemma rev1_cursor_wraps:
  "0 \<le> cursor m \<Longrightarrow> cursor m < int (length (files m)) \<Longrightarrow>
   cursor (upRev1 m) = (cursor m - 1) mod int (length (files m)) \<and>
   cursor (downRev1 m) = (cursor m + 1) mod int (length (files m))"
proof -
  assume lo: "0 \<le> cursor m" and hi: "cursor m < int (length (files m))"
  have up: "cursor (upRev1 m) = (cursor m - 1) mod int (length (files m))"
  proof (cases "cursor m > 0")
    case True
    with hi show ?thesis by (simp add: upRev1_def)
  next
    case False
    with lo have "cursor m = 0" by simp
    with hi show ?thesis by (simp add: upRev1_def zmod_minus1)
  qed
  have down: "cursor (downRev1 m) = (cursor m + 1) mod int (length (files m))"
  proof (cases "cursor m < int (length (files m)) - 1")
    case True
    with lo show ?thesis by (simp add: downRev1_def)
  next
    case False
    with hi have "cursor m + 1 = int (length (files m))" by simp
    with False show ?thesis by (simp add: downRev1_def)
  qed
  from up down show ?thesis ..
qed

text \<open>
  C2, as the claim states it, fails: with two entries and the cursor on the first one, an
  up key in the file list leaves the cursor at 0, whereas \<open>(0 - 1) mod 2 = 1\<close>.
\<close>

theorem cursor_wrap_counterexample:
  "Update quietShell (initialModel twoFiles) (KeyMsg ''up'') () =
     Inr (initialModel twoFiles, None, ()) \<and>
   cursor (initialModel twoFiles) = 0 \<and> \<not> diffMode (initialModel twoFiles) \<and>
   length (files (initialModel twoFiles)) = 2 \<and> (0 - 1) mod 2 = (1 :: int)"
  by (simp add: Update_def keySwitch_def moveCursorUp_def initialModel_def twoFiles_def)

text \<open>
  C2, amended. With \<open>N \<ge> 1\<close> entries and the cursor at \<open>0 \<le> c < N\<close>, in the file list an
  up key moves the cursor to \<open>c - 1\<close> when \<open>c > 0\<close> and leaves it at 0 otherwise; a down key
  moves it to \<open>c + 1\<close> when \<open>c < N - 1\<close> and leaves it at \<open>N - 1\<close> otherwise: the cursor stops
  at both ends and does not wrap. So \<open>N\<close> up keys bring the cursor to 0 and \<open>N\<close> down keys
  bring it to \<open>N - 1\<close>, from any index; with one entry both keys change nothing.
\<close>

theorem cursor_keys_clamp:
  assumes "\<not> diffMode m" and "0 \<le> cursor m" and "cursor m < int (length (files m))"
  shows "Update sh m (KeyMsg ''up'') w = Inr (moveCursorUp m, None, w) \<and>
         cursor (moveCursorUp m) = (if cursor m > 0 then cursor m - 1 else 0) \<and>
         Update sh m (KeyMsg ''down'') w = Inr (moveCursorDown m, None, w) \<and>
         cursor (moveCursorDown m) =
           (if cursor m < int (length (files m)) - 1 then cursor m + 1
            else int (length (files m)) - 1) \<and>
         map_sum id (\<lambda>(m', w'). cursor m')
           (updates sh m (replicate (length (files m)) (KeyMsg ''up'')) w) = Inr 0 \<and>
         map_sum id (\<lambda>(m', w'). cursor m')
           (updates sh m (replicate (length (files m)) (KeyMsg ''down'')) w) =
             Inr (int (length (files m)) - 1) \<and>
         (length (files m) = 1 \<longrightarrow> moveCursorUp m = m \<and> moveCursorDown m = m)"
proof -
  have up: "Update sh m (KeyMsg ''up'') w = Inr (moveCursorUp m, None, w)"
    using assms(1) by (rule Update_up_browsing)
  have down: "Update sh m (KeyMsg ''down'') w = Inr (moveCursorDown m, None, w)"
    using assms(1) by (rule Update_down_browsing)
  have cu: "cursor (moveCursorUp m) = (if cursor m > 0 then cursor m - 1 else 0)"
    using assms(2) by (simp add: moveCursorUp_def)
  have cd: "cursor (moveCursorDown m) =
           (if cursor m < int (length (files m)) - 1 then cursor m + 1
            else int (length (files m)) - 1)"
    using assms(3) by (simp add: moveCursorDown_def)
  from updates_up_browsing [OF assms(1) assms(2), of sh "length (files m)" w]
  obtain m' where "updates sh m (replicate (length (files m)) (KeyMsg ''up'')) w = Inr (m', w)"
    and "cursor m' = max 0 (cursor m - int (length (files m)))"
    by blast
  with assms(3) have nu: "map_sum id (\<lambda>(m', w'). cursor m')
           (updates sh m (replicate (length (files m)) (KeyMsg ''up'')) w) = Inr 0"
    by simp
  from updates_down_browsing [OF assms(1) assms(3), of sh "length (files m)" w]
  obtain m'' where "updates sh m (replicate (length (files m)) (KeyMsg ''down'')) w = Inr (m'', w)"
    and "cursor m'' = min (int (length (files m)) - 1) (cursor m + int (length (files m)))"
    by blast
  with assms(2) have nd: "map_sum id (\<lambda>(m', w'). cursor m')
           (updates sh m (replicate (length (files m)) (KeyMsg ''down'')) w) =
             Inr (int (length (files m)) - 1)"
    by simp
  have one: "length (files m) = 1 \<longrightarrow> moveCursorUp m = m \<and> moveCursorDown m = m"
    using assms(2,3) by (simp add: moveCursorUp_def moveCursorDown_def)
  from up down cu cd nu nd one show ?thesis by blast
qed

theorem cursor_keys_clamp_witness:
  "map_sum id (\<lambda>(m', c, w'). cursor m')
     (Update quietShell (initialModel twoFiles) (KeyMsg ''down'') ()) = Inr 1 \<and>
   map_sum id (\<lambda>(m', w'). cursor m')
     (updates quietShell (initialModel twoFiles) [KeyMsg ''down'', KeyMsg ''down''] ()) = Inr 1 \<and>
   map_sum id (\<lambda>(m', w'). cursor m')
     (updates quietShell (initialModel twoFiles) [KeyMsg ''up'', KeyMsg ''up''] ()) = Inr 0"
proof -
  let ?M = "initialModel twoFiles"
  have h: "\<not> diffMode ?M" "0 \<le> cursor ?M" "cursor ?M < int (length (files ?M))"
    by (simp_all add: initialModel_def twoFiles_def)
  have len: "length (files ?M) = 2"
    by (simp add: initialModel_def twoFiles_def)
  have two: "replicate 2 (KeyMsg ''down'') = [KeyMsg ''down'', KeyMsg ''down'']"
    "replicate 2 (KeyMsg ''up'') = [KeyMsg ''up'', KeyMsg ''up'']"
    by (simp_all add: numeral_2_eq_2)
  have c: "cursor (moveCursorDown ?M) = 1"
    by (simp add: moveCursorDown_def initialModel_def twoFiles_def)
  note T = cursor_keys_clamp [OF h, of quietShell "()"]
  from T have d1: "Update quietShell ?M (KeyMsg ''down'') () = Inr (moveCursorDown ?M, None, ())"
    by blast
  from T have dn: "map_sum id (\<lambda>(m', w'). cursor m')
      (updates quietShell ?M (replicate (length (files ?M)) (KeyMsg ''down'')) ()) =
        Inr (int (length (files ?M)) - 1)"
    by blast
  from T have un: "map_sum id (\<lambda>(m', w'). cursor m')
      (updates quietShell ?M (replicate (length (files ?M)) (KeyMsg ''up'')) ()) = Inr 0"
    by blast
  from d1 c have g1: "map_sum id (\<lambda>(m', c, w'). cursor m')
     (Update quietShell ?M (KeyMsg ''down'') ()) = Inr 1"
    by simp
  from dn have g2: "map_sum id (\<lambda>(m', w'). cursor m')
     (updates quietShell ?M [KeyMsg ''down'', KeyMsg ''down''] ()) = Inr 1"
    unfolding len two by simp
  from un have g3: "map_sum id (\<lambda>(m', w'). cursor m')
     (updates quietShell ?M [KeyMsg ''up'', KeyMsg ''up''] ()) = Inr 0"
    unfolding len two by simp
  from g1 g2 g3 show ?thesis by blast
qed

subsection \<open>C3: the toggle key\<close>

lemma Update_space_browsing:
  assumes "\<not> diffMode m" and "0 \<le> cursor m" and "cursor m < int (length (files m))"
  shows "Update sh m (KeyMsg '' '') w =
     (let f = files m ! nat (cursor m)
      in if status f = Staged then
           (case Run sh (unstageCmd f) w of
              (e, c, w') \<Rightarrow>
                Inr (m\<lparr>files := (files m)
                       [nat (cursor m) := f\<lparr>unstageCmd := c, status := Unstaged\<rparr>]\<rparr>, None, w'))
         else
           (case Run sh (stageCmd f) w of
              (e, c, w') \<Rightarrow>
                Inr (m\<lparr>files := (files m)
                       [nat (cursor m) := f\<lparr>stageCmd := c, status := Staged\<rparr>]\<rparr>, None, w')))"
  using assms
  by (cases "status (files m ! nat (cursor m))")
     (simp_all add: Update_def keySwitch_def filesAtCursor_def Let_def split: prod.splits)

lemma Update_space_status:
  assumes "\<not> diffMode m" and "0 \<le> cursor m" and "cursor m < int (length (files m))"
  shows "\<exists>m' w'. Update sh m (KeyMsg '' '') w = Inr (m', None, w') \<and>
           \<not> diffMode m' \<and> cursor m' = cursor m \<and> length (files m') = length (files m) \<and>
           status (files m' ! nat (cursor m)) =
             (if status (files m ! nat (cursor m)) = Staged then Unstaged else Staged)"
proof -
  from assms have i: "nat (cursor m) < length (files m)" by simp
  obtain e c w' where r: "Run sh (unstageCmd (files m ! nat (cursor m))) w = (e, c, w')"
    by (cases "Run sh (unstageCmd (files m ! nat (cursor m))) w") auto
  obtain e2 c2 w2 where r2: "Run sh (stageCmd (files m ! nat (cursor m))) w = (e2, c2, w2)"
    by (cases "Run sh (stageCmd (files m ! nat (cursor m))) w") auto
  show ?thesis
    unfolding Update_space_browsing [OF assms] Let_def
    using i r r2 assms(1) by simp
qed

lemma updates_space_browsing:
  assumes "\<not> diffMode m" and "0 \<le> cursor m" and "cursor m < int (length (files m))"
  shows "\<exists>m' w'. updates sh m (replicate n (KeyMsg '' '')) w = Inr (m', w') \<and>
           \<not> diffMode m' \<and> cursor m' = cursor m \<and> length (files m') = length (files m) \<and>
           (0 < n \<longrightarrow> status (files m' ! nat (cursor m)) =
              (if (status (files m ! nat (cursor m)) = Staged) = odd n
               then Unstaged else Staged))"
  using assms
proof (induction n arbitrary: m w)
  case 0
  then show ?case by simp
next
  case (Suc n)
  from Update_space_status [OF Suc.prems, of sh w] obtain m1 w1 where
    step: "Update sh m (KeyMsg '' '') w = Inr (m1, None, w1)" and
    m1: "\<not> diffMode m1" "cursor m1 = cursor m" "length (files m1) = length (files m)" and
    s1: "status (files m1 ! nat (cursor m)) =
           (if status (files m ! nat (cursor m)) = Staged then Unstaged else Staged)"
    by blast
  from m1 Suc.prems have p1: "\<not> diffMode m1" "0 \<le> cursor m1"
    "cursor m1 < int (length (files m1))" by simp_all
  from Suc.IH [OF p1, of w1] obtain m' w' where
    run: "updates sh m1 (replicate n (KeyMsg '' '')) w1 = Inr (m', w')" and
    m': "\<not> diffMode m'" "cursor m' = cursor m1" "length (files m') = length (files m1)" and
    s': "0 < n \<longrightarrow> status (files m' ! nat (cursor m1)) =
           (if (status (files m1 ! nat (cursor m1)) = Staged) = odd n then Unstaged else Staged)"
    by blast
  have all: "updates sh m (replicate (Suc n) (KeyMsg '' '')) w = Inr (m', w')"
    using step run by simp
  have st: "status (files m' ! nat (cursor m)) =
      (if (status (files m ! nat (cursor m)) = Staged) = odd (Suc n) then Unstaged else Staged)"
  proof (cases "n = 0")
    case True
    with run have "m' = m1" by simp
    with s1 True show ?thesis by simp
  next
    case False
    with s' m1 s1 show ?thesis by auto
  qed
  from all m' m1 st show ?case by auto
qed

text \<open>
  What the toggle key does to the entry at the cursor in the file list, for every
  collaborator: it calls \<open>Run\<close> on the unstage command and makes the entry Unstaged
  when the entry is Staged, and calls \<open>Run\<close> on the stage command and makes it Staged
  otherwise; what \<open>Run\<close> returns is not looked at, and after any number \<open>n \<ge> 1\<close> of
  toggle keys the entry is Staged or Unstaged.
\<close>

lemma toggle_classification:
  assumes "\<not> diffMode m" and "0 \<le> cursor m" and "cursor m < int (length (files m))"
    and "f = files m ! nat (cursor m)"
  shows "(status f = Staged \<longrightarrow>
            Update sh m (KeyMsg '' '') w =
              (case Run sh (unstageCmd f) w of
                 (e, c, w') \<Rightarrow>
                   Inr (m\<lparr>files := (files m)
                          [nat (cursor m) := f\<lparr>unstageCmd := c, status := Unstaged\<rparr>]\<rparr>,
                        None, w'))) \<and>
         (status f = Unstaged \<or> status f = PartiallyStaged \<longrightarrow>
            Update sh m (KeyMsg '' '') w =
              (case Run sh (stageCmd f) w of
                 (e, c, w') \<Rightarrow>
                   Inr (m\<lparr>files := (files m)
                          [nat (cursor m) := f\<lparr>stageCmd := c, status := Staged\<rparr>]\<rparr>,
                        None, w'))) \<and>
         (0 < n \<longrightarrow>
            (\<exists>m' w'. updates sh m (replicate n (KeyMsg '' '')) w = Inr (m', w') \<and>
               status (files m' ! nat (cursor m)) =
                 (if (status f = Staged) = odd n then Unstaged else Staged) \<and>
               status (files m' ! nat (cursor m)) \<noteq> PartiallyStaged))"
proof (intro conjI impI)
  assume "status f = Staged"
  then show "Update sh m (KeyMsg '' '') w =
              (case Run sh (unstageCmd f) w of
                 (e, c, w') \<Rightarrow>
                   Inr (m\<lparr>files := (files m)
                          [nat (cursor m) := f\<lparr>unstageCmd := c, status := Unstaged\<rparr>]\<rparr>,
                        None, w'))"
    unfolding Update_space_browsing [OF assms(1-3)] using assms(4) by (simp add: Let_def)
next
  assume "status f = Unstaged \<or> status f = PartiallyStaged"
  then have "status f \<noteq> Staged" by auto
  then show "Update sh m (KeyMsg '' '') w =
              (case Run sh (stageCmd f) w of
                 (e, c, w') \<Rightarrow>
                   Inr (m\<lparr>files := (files m)
                          [nat (cursor m) := f\<lparr>stageCmd := c, status := Staged\<rparr>]\<rparr>,
                        None, w'))"
    unfolding Update_space_browsing [OF assms(1-3)] using assms(4) by (simp add: Let_def)
next
  assume "0 < n"
  with updates_space_browsing [OF assms(1-3), of sh n w] assms(4)
  show "\<exists>m' w'. updates sh m (replicate n (KeyMsg '' '')) w = Inr (m', w') \<and>
               status (files m' ! nat (cursor m)) =
                 (if (status f = Staged) = odd n then Unstaged else Staged) \<and>
               status (files m' ! nat (cursor m)) \<noteq> PartiallyStaged"
    by auto
qed

lemma toggle_classification_example:
  "map_sum id (\<lambda>(m', c, w'). map status (files m'))
     (Update loggingShell (initialModel twoFiles) (KeyMsg '' '') []) = Inr [Staged, Unstaged] \<and>
   map_sum id (\<lambda>(m', c, w'). w')
     (Update loggingShell (initialModel twoFiles) (KeyMsg '' '') []) =
       Inr [[''git'', ''add'', ''a.txt'']] \<and>
   map_sum id (\<lambda>(m', w'). status (files m' ! 0))
     (updates loggingShell (initialModel twoFiles) [KeyMsg '' '', KeyMsg '' ''] []) = Inr Unstaged"
proof -
  let ?M = "initialModel twoFiles"
  have h: "\<not> diffMode ?M" "0 \<le> cursor ?M" "cursor ?M < int (length (files ?M))"
    by (simp_all add: initialModel_def twoFiles_def)
  note T = toggle_classification [OF h refl, where sh = loggingShell and w = "[]" and n = 2]
  have f0: "files ?M ! nat (cursor ?M) = twoFiles ! 0" "nat (cursor ?M) = 0"
    "status (twoFiles ! 0) = Unstaged" "files ?M = twoFiles"
    by (simp_all add: initialModel_def twoFiles_def)
  have run: "Run loggingShell (stageCmd (twoFiles ! 0)) [] =
      (None, (stageCmd (twoFiles ! 0))\<lparr>started := True\<rparr>, [[''git'', ''add'', ''a.txt'']])"
    by (simp add: Run_def loggingShell_def twoFiles_def Command_def)
  from T f0 have "Update loggingShell ?M (KeyMsg '' '') [] =
      (case Run loggingShell (stageCmd (twoFiles ! 0)) [] of
         (e, c, w') \<Rightarrow>
           Inr (?M\<lparr>files := twoFiles [0 := (twoFiles ! 0)\<lparr>stageCmd := c, status := Staged\<rparr>]\<rparr>,
                None, w'))"
    by simp
  then have one: "Update loggingShell ?M (KeyMsg '' '') [] =
      Inr (?M\<lparr>files := twoFiles [0 := (twoFiles ! 0)
              \<lparr>stageCmd := (stageCmd (twoFiles ! 0))\<lparr>started := True\<rparr>, status := Staged\<rparr>]\<rparr>,
           None, [[''git'', ''add'', ''a.txt'']])"
    unfolding run by simp
  have g1: "map_sum id (\<lambda>(m', c, w'). map status (files m'))
     (Update loggingShell ?M (KeyMsg '' '') []) = Inr [Staged, Unstaged]"
    unfolding one by (simp add: twoFiles_def)
  have g2: "map_sum id (\<lambda>(m', c, w'). w') (Update loggingShell ?M (KeyMsg '' '') []) =
       Inr [[''git'', ''add'', ''a.txt'']]"
    unfolding one by simp
  have two: "replicate 2 (KeyMsg '' '') = [KeyMsg '' '', KeyMsg '' '']"
    by (simp add: numeral_2_eq_2)
  from T f0 obtain m' w' where
    "updates loggingShell ?M (replicate 2 (KeyMsg '' '')) [] = Inr (m', w')"
    "status (files m' ! 0) = Unstaged"
    by auto
  then have g3: "map_sum id (\<lambda>(m', w'). status (files m' ! 0))
     (updates loggingShell ?M [KeyMsg '' '', KeyMsg '' ''] []) = Inr Unstaged"
    unfolding two by simp
  from g1 g2 g3 show ?thesis by blast
qed

text \<open>
  \<open>Run\<close> reaches the collaborator only when the command object has not been started
  before; on a started command the toggle key changes the classification and leaves the
  world as it is, whatever the collaborator.
\<close>

lemma Run_fresh_command:
  "\<not> started c \<Longrightarrow>
   Run sh c w = (err (fst (sh (args c) w)), c\<lparr>started := spawned (fst (sh (args c) w))\<rparr>,
                 snd (sh (args c) w))"
  by (simp add: Run_def split: prod.splits)

lemma Run_started_command:
  "started c \<Longrightarrow> Run sh c w = (Some ''exec: already started'', c, w)"
  by (simp add: Run_def)

lemma toggle_started_stage_command:
  assumes "\<not> diffMode m" and "0 \<le> cursor m" and "cursor m < int (length (files m))"
    and "status (files m ! nat (cursor m)) \<noteq> Staged"
    and "started (stageCmd (files m ! nat (cursor m)))"
  shows "Update sh m (KeyMsg '' '') w =
           Inr (m\<lparr>files := (files m)
                  [nat (cursor m) := (files m ! nat (cursor m))\<lparr>status := Staged\<rparr>]\<rparr>, None, w)"
  unfolding Update_space_browsing [OF assms(1-3)] Let_def
  using assms(4,5) by (simp add: Run_started_command)

lemma toggle_started_unstage_command:
  assumes "\<not> diffMode m" and "0 \<le> cursor m" and "cursor m < int (length (files m))"
    and "status (files m ! nat (cursor m)) = Staged"
    and "started (unstageCmd (files m ! nat (cursor m)))"
  shows "Update sh m (KeyMsg '' '') w =
           Inr (m\<lparr>files := (files m)
                  [nat (cursor m) := (files m ! nat (cursor m))\<lparr>status := Unstaged\<rparr>]\<rparr>, None, w)"
  unfolding Update_space_browsing [OF assms(1-3)] Let_def
  using assms(4,5) by (simp add: Run_started_command)

text \<open>
  C3. A toggle key in the file list should invoke the unstage action of a Staged entry
  and the stage action of an Unstaged or PartiallyStaged entry, and set the
  classification to Unstaged or Staged accordingly. The program sets the classification
  as claimed, but it invokes the action only the first time: the entry keeps one command
  object for each action (the field comment reads "Command to stage, or re-stage after
  unstaging") and a command object starts a process once. With the cursor on the first of
  two entries in a running session, the first toggle key hands \<^verbatim>\<open>git add a.txt\<close> to the
  collaborator and the second \<^verbatim>\<open>git rm --cached a.txt\<close>; the third and the fourth hand
  it nothing, and the entry is shown as Staged and then as Unstaged all the same.
\<close>

theorem repeated_toggle_starts_no_process:
  "map_sum id (\<lambda>(m', w'). (status (files m' ! 0), w'))
     (runLoop loggingShell plainStyles (initialModel twoFiles) [KeyMsg '' ''] []) =
     Inr (Staged, [[''git'', ''add'', ''a.txt'']]) \<and>
   map_sum id (\<lambda>(m', w'). (status (files m' ! 0), w'))
     (runLoop loggingShell plainStyles (initialModel twoFiles) [KeyMsg '' '', KeyMsg '' ''] []) =
     Inr (Unstaged, [[''git'', ''add'', ''a.txt''], [''git'', ''rm'', ''--cached'', ''a.txt'']]) \<and>
   map_sum id (\<lambda>(m', w'). (status (files m' ! 0), w'))
     (runLoop loggingShell plainStyles (initialModel twoFiles)
        [KeyMsg '' '', KeyMsg '' '', KeyMsg '' ''] []) =
     Inr (Staged, [[''git'', ''add'', ''a.txt''], [''git'', ''rm'', ''--cached'', ''a.txt'']]) \<and>
   map_sum id (\<lambda>(m', w'). (status (files m' ! 0), w'))
     (runLoop loggingShell plainStyles (initialModel twoFiles)
        [KeyMsg '' '', KeyMsg '' '', KeyMsg '' '', KeyMsg '' ''] []) =
     Inr (Unstaged, [[''git'', ''add'', ''a.txt''], [''git'', ''rm'', ''--cached'', ''a.txt'']])"
  by code_simp

subsection \<open>C7: the diff fetcher\<close>

text \<open>
  C7. \<open>getDiff\<close> gives exactly one command to the collaborator, chosen by the
  classification of the entry: \<^verbatim>\<open>git d --staged\<close> for a Staged entry (the index
  against HEAD), \<^verbatim>\<open>git d\<close> for an Unstaged one, \<^verbatim>\<open>git d HEAD\<close> for a PartiallyStaged
  one. When the command ends with an error \<open>e\<close> the result is the text
  "Failed to show diff: " followed by \<open>e\<close>, otherwise it is the combined output; in both
  cases a string is returned.
\<close>

theorem getDiff_failure_string:
  "\<exists>c. snd (snd (getDiff (traced sh) f (w, []))) = [c] \<and>
        (status f = Staged \<longrightarrow> c = [''git'', ''d'', ''--staged'', name f]) \<and>
        (status f = Unstaged \<longrightarrow> c = [''git'', ''d'', name f]) \<and>
        (status f = PartiallyStaged \<longrightarrow> c = [''git'', ''d'', ''HEAD'', name f]) \<and>
        (\<forall>e. err (fst (sh c w)) = Some e \<longrightarrow>
           fst (getDiff sh f w) = ''Failed to show diff: '' @ e) \<and>
        (err (fst (sh c w)) = None \<longrightarrow> fst (getDiff sh f w) = combined (fst (sh c w))) \<and>
        snd (getDiff sh f w) = snd (sh c w)"
proof (cases "status f")
  case Unstaged
  obtain p w' where r: "sh [''git'', ''d'', name f] w = (p, w')"
    by (cases "sh [''git'', ''d'', name f] w") auto
  show ?thesis
    by (rule exI [of _ "[''git'', ''d'', name f]"])
       (simp add: getDiff_def traced_def Unstaged r split: option.splits)
next
  case Staged
  obtain p w' where r: "sh [''git'', ''d'', ''--staged'', name f] w = (p, w')"
    by (cases "sh [''git'', ''d'', ''--staged'', name f] w") auto
  show ?thesis
    by (rule exI [of _ "[''git'', ''d'', ''--staged'', name f]"])
       (simp add: getDiff_def traced_def Staged r split: option.splits)
next
  case PartiallyStaged
  obtain p w' where r: "sh [''git'', ''d'', ''HEAD'', name f] w = (p, w')"
    by (cases "sh [''git'', ''d'', ''HEAD'', name f] w") auto
  show ?thesis
    by (rule exI [of _ "[''git'', ''d'', ''HEAD'', name f]"])
       (simp add: getDiff_def traced_def PartiallyStaged r split: option.splits)
qed

theorem getDiff_failure_string_witness:
  "fst (getDiff failingShell ((twoFiles ! 0)\<lparr>status := Staged\<rparr>) ()) =
     ''Failed to show diff: exit status 128'' \<and>
   snd (snd (getDiff (traced failingShell) ((twoFiles ! 0)\<lparr>status := Staged\<rparr>) ((), []))) =
     [[''git'', ''d'', ''--staged'', ''a.txt'']]"
proof -
  let ?f = "(twoFiles ! 0)\<lparr>status := Staged\<rparr>"
  have f: "status ?f = Staged" "name ?f = ''a.txt''"
    by (simp_all add: twoFiles_def)
  from getDiff_failure_string [of failingShell ?f "()"] obtain c where
    c: "snd (snd (getDiff (traced failingShell) ?f ((), []))) = [c]"
    and cs: "status ?f = Staged \<longrightarrow> c = [''git'', ''d'', ''--staged'', name ?f]"
    and ce: "\<forall>e. err (fst (failingShell c ())) = Some e \<longrightarrow>
           fst (getDiff failingShell ?f ()) = ''Failed to show diff: '' @ e"
    by blast
  have "err (fst (failingShell c ())) = Some ''exit status 128''"
    by (simp add: failingShell_def)
  with ce have "fst (getDiff failingShell ?f ()) = ''Failed to show diff: '' @ ''exit status 128''"
    by blast
  with c cs f show ?thesis by simp
qed

subsection \<open>C8 and C9: the loader and the start of the program\<close>

lemma TrimSpace_true_newline: "TrimSpace (''true'' @ [CHR 0x0A]) = ''true''"
  by code_simp

lemma TrimSpace_file_name: "TrimSpace ('' a b.txt  '' @ [CHR 0x0D]) = ''a b.txt''"
  by code_simp

text \<open>The four status lines of the end-to-end scenario of the specification.\<close>

lemma statusLoop_four_lines:
  "map_sum id (map (\<lambda>f. (name f, status f, args (unstageCmd f))))
     (statusLoop []
        (splitLines (''?? newfile.txt'' @ newline @ '' M changed.txt'' @ newline @
                     ''A  added.txt'' @ newline @ ''AM addedmod.txt'' @ newline))) =
   Inr [(''newfile.txt'', Unstaged, [''git'', ''rm'', ''--cached'', ''newfile.txt'']),
        (''changed.txt'', Unstaged, [''git'', ''restore'', ''--staged'', ''changed.txt'']),
        (''added.txt'', Staged, [''git'', ''rm'', ''--cached'', ''added.txt'']),
        (''addedmod.txt'', PartiallyStaged, [''git'', ''rm'', ''--cached'', ''addedmod.txt''])]"
  by code_simp

lemma statusLoop_short_lines:
  "\<forall>l \<in> set ls. length l < 4 \<Longrightarrow> statusLoop acc ls = Inr acc"
  by (induction ls arbitrary: acc) simp_all

text \<open>
  C8. When the work-tree check returns an error, or prints something that is not
  \<open>true\<close> once white space is trimmed, \<open>getGitChanges\<close> returns the error
  "Not inside a git repository" and no file list, and \<open>main\<close> prints
  "Error: Not inside a git repository" and exits with code 1; the program is not started.
\<close>

theorem not_a_repository_is_fatal:
  assumes "sh [''git'', ''rev-parse'', ''--is-inside-work-tree''] w = (chk, w1)"
    and "err chk \<noteq> None \<or> TrimSpace (stdout chk) \<noteq> ''true''"
  shows "getGitChanges sh w = (Inr (Inl (Errorf ''Not inside a git repository'')), w1) \<and>
         main sh w = (Exit [''Error: Not inside a git repository''] 1, w1) \<and>
         (\<forall>m. fst (main sh w) \<noteq> RunProgram m)"
proof -
  from assms have g: "getGitChanges sh w = (Inr (Inl (Errorf ''Not inside a git repository'')), w1)"
    by (auto simp: getGitChanges_def)
  then show ?thesis by (simp add: main_def)
qed

theorem not_a_repository_is_fatal_witness:
  "main failingShell () = (Exit [''Error: Not inside a git repository''] 1, ()) \<and>
   getGitChanges failingShell () = (Inr (Inl (Errorf ''Not inside a git repository'')), ())"
proof -
  have a: "failingShell [''git'', ''rev-parse'', ''--is-inside-work-tree''] () =
      (\<lparr>stdout = [], combined = ''fatal: not a git repository'',
        err = Some ''exit status 128'', spawned = True\<rparr>, ())"
    by (simp add: failingShell_def)
  have b: "err \<lparr>stdout = [], combined = ''fatal: not a git repository'',
        err = Some ''exit status 128'', spawned = True\<rparr> \<noteq> None \<or>
      TrimSpace (stdout \<lparr>stdout = [], combined = ''fatal: not a git repository'',
        err = Some ''exit status 128'', spawned = True\<rparr>) \<noteq> ''true''"
    by simp
  from not_a_repository_is_fatal [where sh = failingShell and w = "()", OF a b]
  show ?thesis by blast
qed

text \<open>
  C9. When the work-tree check succeeds and the status query succeeds with no line of
  four characters or more, \<open>getGitChanges\<close> returns the empty list without an error, and
  \<open>main\<close> prints "No changes to stage or unstage." and returns, which is exit code 0; the
  program is not started.
\<close>

theorem no_changes_exits_zero:
  assumes "sh [''git'', ''rev-parse'', ''--is-inside-work-tree''] w = (chk, w1)"
    and "err chk = None" and "TrimSpace (stdout chk) = ''true''"
    and "sh [''git'', ''status'', ''--porcelain''] w1 = (st, w2)"
    and "err st = None"
    and "\<forall>l \<in> set (splitLines (stdout st)). length l < 4"
  shows "getGitChanges sh w = (Inr (Inr []), w2) \<and>
         main sh w = (Exit [''No changes to stage or unstage.''] 0, w2) \<and>
         (\<forall>m. fst (main sh w) \<noteq> RunProgram m)"
proof -
  from assms(6) have "statusLoop [] (splitLines (stdout st)) = Inr []"
    by (rule statusLoop_short_lines)
  with assms(1-5) have g: "getGitChanges sh w = (Inr (Inr []), w2)"
    by (simp add: getGitChanges_def)
  then show ?thesis by (simp add: main_def)
qed

theorem no_changes_exits_zero_witness:
  "main cleanRepoShell () = (Exit [''No changes to stage or unstage.''] 0, ()) \<and>
   getGitChanges cleanRepoShell () = (Inr (Inr []), ())"
proof -
  let ?chk = "\<lparr>stdout = ''true'' @ [CHR 0x0A], combined = ''true'' @ [CHR 0x0A],
             err = None, spawned = True\<rparr>"
  let ?st = "\<lparr>stdout = [], combined = [], err = None, spawned = True\<rparr>"
  have a: "cleanRepoShell [''git'', ''rev-parse'', ''--is-inside-work-tree''] () = (?chk, ())"
    by (simp add: cleanRepoShell_def)
  have b: "err ?chk = None" by simp
  have c: "TrimSpace (stdout ?chk) = ''true''"
    using TrimSpace_true_newline by simp
  have d: "cleanRepoShell [''git'', ''status'', ''--porcelain''] () = (?st, ())"
    by (simp add: cleanRepoShell_def)
  have e: "err ?st = None" by simp
  have f: "\<forall>l \<in> set (splitLines (stdout ?st)). length l < 4" by simp
  from no_changes_exits_zero [where sh = cleanRepoShell and w = "()", OF a b c d e f]
  show ?thesis by blast
qed

subsection \<open>C5: the diff key\<close>






subsection \<open>The frame of the diff viewer\<close>

text \<open>
  In the diff viewer \<open>View\<close> returns a frame exactly when the viewport height is not
  negative and the scroll offset is between 0 and the number of lines; otherwise the
  slice expression panics. The event loop draws the frame of every state before it takes
  the next message, so the states in which a running diff viewer receives a key are the
  ones with a frame.
\<close>

lemma View_diff_frame_iff:
  assumes "\<not> quitting m" and "diffMode m"
  shows "(\<exists>frame. View st m = Inr frame) \<longleftrightarrow>
           0 \<le> scrollOffset m \<and> 0 \<le> viewportHeight m \<and>
           scrollOffset m \<le> int (length (splitLines (diffContent m)))"
  using assms by (auto simp: View_def Let_def)

lemma View_drawn_bounds:
  assumes "\<not> quitting m" and "diffMode m" and "\<not> isl (View st m)"
  shows "0 \<le> scrollOffset m \<and> 0 \<le> viewportHeight m \<and>
         scrollOffset m \<le> int (length (splitLines (diffContent m)))"
proof -
  from assms(3) have "\<exists>frame. View st m = Inr frame" by (cases "View st m") auto
  with View_diff_frame_iff [OF assms(1,2), of st] show ?thesis by blast
qed

lemma View_negative_viewport:
  "\<not> quitting m \<Longrightarrow> diffMode m \<Longrightarrow> viewportHeight m < 0 \<Longrightarrow>
   View st m = Inl SliceBoundsOutOfRange"
  by (auto simp: View_def Let_def)


text \<open>
  With thirty changed files in a terminal of 24 rows the viewport height is \<open>-7\<close>: the
  file list is drawn, and the key \<open>d\<close> ends the session with a panic in \<open>View\<close>, before
  any scroll key can arrive.
\<close>

lemma negative_viewport_panics_on_entry:
  "map_sum id (\<lambda>(m', w'). (diffMode m', viewportHeight m'))
     (runLoop threeLineShell plainStyles (initialModel thirtyFiles) [WindowSizeMsg 80 24] ()) =
     Inr (False, - 7) \<and>
   runLoop threeLineShell plainStyles (initialModel thirtyFiles)
     [WindowSizeMsg 80 24, KeyMsg ''d''] () = Inl SliceBoundsOutOfRange"
  by code_simp

subsection \<open>C6: the page keys\<close>

lemma goDiv_2_nonneg: "0 \<le> a \<Longrightarrow> goDiv a 2 = a div 2"
  by (cases "a = 0") (simp_all add: goDiv_def)

lemma goDiv_2_bounds: "0 \<le> a \<Longrightarrow> 0 \<le> goDiv a 2"
  by (simp add: goDiv_2_nonneg)

lemma getMaxScroll_nonneg: "0 \<le> getMaxScroll m"
  by (simp add: getMaxScroll_def Let_def)

lemma Update_pgdown_viewing:
  assumes "diffMode m" and "0 \<le> cursor m" and "cursor m < int (length (files m))"
  shows "Update sh m (KeyMsg ''pgdown'') w =
           Inr (m\<lparr>scrollOffset := min (getMaxScroll m) (scrollOffset m + goDiv (viewportHeight m) 2),
                  diffContent := fst (getDiff sh (files m ! nat (cursor m)) w)\<rparr>,
                None, snd (getDiff sh (files m ! nat (cursor m)) w))"
  using assms
  by (simp add: Update_def keySwitch_def filesAtCursor_def Let_def min_def split: prod.splits)

lemma Update_pgup_viewing:
  assumes "diffMode m" and "0 \<le> cursor m" and "cursor m < int (length (files m))"
  shows "Update sh m (KeyMsg ''pgup'') w =
           Inr (m\<lparr>scrollOffset := max 0 (scrollOffset m - goDiv (viewportHeight m) 2),
                  diffContent := fst (getDiff sh (files m ! nat (cursor m)) w)\<rparr>,
                None, snd (getDiff sh (files m ! nat (cursor m)) w))"
  using assms
  by (simp add: Update_def keySwitch_def filesAtCursor_def Let_def max_def split: prod.splits)

text \<open>
  On a diff of three lines shown in a viewport of twenty lines \<open>maxScroll\<close> is 0, and a
  page-down from offset 0 leaves the offset at \<open>min 0 10 = 0\<close>.
\<close>

lemma page_down_short_diff:
  "map_sum id (\<lambda>(m', w'). (diffMode m', viewportHeight m', getMaxScroll m', scrollOffset m'))
     (runLoop threeLineShell plainStyles (initialModel twoFiles)
        [WindowSizeMsg 80 23, KeyMsg ''d'', KeyMsg ''pgdown''] ()) = Inr (True, 20, 0, 0)"
  by code_simp

text \<open>
  C6. In the diff viewer, with \<open>maxScroll\<close> computed from the text shown when the key
  arrives and \<open>/\<close> Go's division, a page-down sets \<open>scrollOffset\<close> to
  \<open>min maxScroll (scrollOffset + viewportHeight / 2)\<close> and a page-up sets it to
  \<open>max 0 (scrollOffset - viewportHeight / 2)\<close>. From offset 0 with a viewport of 20
  lines a page-down gives \<open>min maxScroll 10\<close>, which is 10 as soon as \<open>maxScroll\<close> is at
  least 10. A page-down never gives more than \<open>maxScroll\<close> and a page-up never less than
  0; and in a state whose frame the running program has drawn, a page-down does not
  give less than 0 and a page-up does not raise the offset, so it does not exceed
  \<open>maxScroll\<close> unless it did before.
\<close>

theorem page_keys_scroll:
  assumes "diffMode m" and "0 \<le> cursor m" and "cursor m < int (length (files m))"
  shows "\<exists>md wd mu wu.
           Update sh m (KeyMsg ''pgdown'') w = Inr (md, None, wd) \<and>
           Update sh m (KeyMsg ''pgup'') w = Inr (mu, None, wu) \<and>
           scrollOffset md = min (getMaxScroll m) (scrollOffset m + goDiv (viewportHeight m) 2) \<and>
           scrollOffset mu = max 0 (scrollOffset m - goDiv (viewportHeight m) 2) \<and>
           (viewportHeight m = 20 \<and> scrollOffset m = 0 \<longrightarrow>
              scrollOffset md = min (getMaxScroll m) 10 \<and>
              (10 \<le> getMaxScroll m \<longrightarrow> scrollOffset md = 10)) \<and>
           scrollOffset md \<le> getMaxScroll m \<and> 0 \<le> scrollOffset mu \<and>
           (\<not> quitting m \<and> \<not> isl (View st m) \<longrightarrow>
              0 \<le> scrollOffset md \<and> scrollOffset mu \<le> scrollOffset m \<and>
              (scrollOffset m \<le> getMaxScroll m \<longrightarrow> scrollOffset mu \<le> getMaxScroll m))"
proof -
  let ?md = "m\<lparr>scrollOffset := min (getMaxScroll m) (scrollOffset m + goDiv (viewportHeight m) 2),
               diffContent := fst (getDiff sh (files m ! nat (cursor m)) w)\<rparr>"
  let ?mu = "m\<lparr>scrollOffset := max 0 (scrollOffset m - goDiv (viewportHeight m) 2),
               diffContent := fst (getDiff sh (files m ! nat (cursor m)) w)\<rparr>"
  let ?w' = "snd (getDiff sh (files m ! nat (cursor m)) w)"
  have d: "Update sh m (KeyMsg ''pgdown'') w = Inr (?md, None, ?w')"
    using assms by (rule Update_pgdown_viewing)
  have u: "Update sh m (KeyMsg ''pgup'') w = Inr (?mu, None, ?w')"
    using assms by (rule Update_pgup_viewing)
  have ten: "viewportHeight m = 20 \<and> scrollOffset m = 0 \<longrightarrow>
      scrollOffset ?md = min (getMaxScroll m) 10 \<and>
      (10 \<le> getMaxScroll m \<longrightarrow> scrollOffset ?md = 10)"
    by (simp add: goDiv_def)
  have drawn: "\<not> quitting m \<and> \<not> isl (View st m) \<longrightarrow>
      0 \<le> scrollOffset ?md \<and> scrollOffset ?mu \<le> scrollOffset m \<and>
      (scrollOffset m \<le> getMaxScroll m \<longrightarrow> scrollOffset ?mu \<le> getMaxScroll m)"
  proof
    assume a: "\<not> quitting m \<and> \<not> isl (View st m)"
    with View_drawn_bounds [of m st] assms(1)
    have b: "0 \<le> scrollOffset m" "0 \<le> viewportHeight m" by simp_all
    from b(2) have "0 \<le> goDiv (viewportHeight m) 2" by (rule goDiv_2_bounds)
    with b getMaxScroll_nonneg [of m]
    show "0 \<le> scrollOffset ?md \<and> scrollOffset ?mu \<le> scrollOffset m \<and>
      (scrollOffset m \<le> getMaxScroll m \<longrightarrow> scrollOffset ?mu \<le> getMaxScroll m)"
      by auto
  qed
  have "scrollOffset ?md \<le> getMaxScroll m" "0 \<le> scrollOffset ?mu" by simp_all
  with d u ten drawn show ?thesis
    by (intro exI [of _ ?md] exI [of _ ?mu] exI [of _ ?w']) simp
qed

lemma getMaxScroll_viewingFortyLines:
  "getMaxScroll viewingFortyLines = 20"
  "getMaxScroll (viewingFortyLines\<lparr>scrollOffset := 15\<rparr>) = 20"
  by code_simp+

lemma View_viewingFortyLines:
  "\<not> isl (View plainStyles viewingFortyLines)"
  "\<not> isl (View plainStyles (viewingFortyLines\<lparr>scrollOffset := 15\<rparr>))"
  by code_simp+

theorem page_keys_scroll_witness:
  "map_sum id (\<lambda>(m', c, w'). scrollOffset m')
     (Update fortyLineShell viewingFortyLines (KeyMsg ''pgdown'') ()) = Inr 10 \<and>
   map_sum id (\<lambda>(m', c, w'). scrollOffset m')
     (Update fortyLineShell viewingFortyLines (KeyMsg ''pgup'') ()) = Inr 0 \<and>
   map_sum id (\<lambda>(m', c, w'). scrollOffset m')
     (Update fortyLineShell (viewingFortyLines\<lparr>scrollOffset := 15\<rparr>) (KeyMsg ''pgdown'') ()) =
     Inr 20 \<and>
   map_sum id (\<lambda>(m', c, w'). scrollOffset m')
     (Update fortyLineShell (viewingFortyLines\<lparr>scrollOffset := 15\<rparr>) (KeyMsg ''pgup'') ()) =
     Inr 5"
proof -
  let ?M = viewingFortyLines
  let ?N = "viewingFortyLines\<lparr>scrollOffset := 15\<rparr>"
  have h: "diffMode ?M" "0 \<le> cursor ?M" "cursor ?M < int (length (files ?M))"
    by (simp_all add: viewingFortyLines_def twoFiles_def)
  have hn: "diffMode ?N" "0 \<le> cursor ?N" "cursor ?N < int (length (files ?N))"
    by (simp_all add: viewingFortyLines_def twoFiles_def)
  have v: "viewportHeight ?M = 20" "scrollOffset ?M = 0" "\<not> quitting ?M"
    by (simp_all add: viewingFortyLines_def)
  have vn: "viewportHeight ?N = 20" "scrollOffset ?N = 15" "\<not> quitting ?N"
    by (simp_all add: viewingFortyLines_def)
  have half: "goDiv 20 2 = 10" by (simp add: goDiv_def)
  from page_keys_scroll [OF h, of fortyLineShell "()" plainStyles] obtain md wd mu wu where
    d: "Update fortyLineShell ?M (KeyMsg ''pgdown'') () = Inr (md, None, wd)" and
    u: "Update fortyLineShell ?M (KeyMsg ''pgup'') () = Inr (mu, None, wu)" and
    su: "scrollOffset mu = max 0 (scrollOffset ?M - goDiv (viewportHeight ?M) 2)" and
    ten: "viewportHeight ?M = 20 \<and> scrollOffset ?M = 0 \<longrightarrow>
            scrollOffset md = min (getMaxScroll ?M) 10 \<and>
            (10 \<le> getMaxScroll ?M \<longrightarrow> scrollOffset md = 10)"
    by blast
  from ten v getMaxScroll_viewingFortyLines(1) have g1: "scrollOffset md = 10" by simp
  from su v half have g2: "scrollOffset mu = 0" by simp
  from page_keys_scroll [OF hn, of fortyLineShell "()" plainStyles] obtain nd xd nu xu where
    dn: "Update fortyLineShell ?N (KeyMsg ''pgdown'') () = Inr (nd, None, xd)" and
    un: "Update fortyLineShell ?N (KeyMsg ''pgup'') () = Inr (nu, None, xu)" and
    sd: "scrollOffset nd = min (getMaxScroll ?N) (scrollOffset ?N + goDiv (viewportHeight ?N) 2)" and
    sn: "scrollOffset nu = max 0 (scrollOffset ?N - goDiv (viewportHeight ?N) 2)" and
    dr: "\<not> quitting ?N \<and> \<not> isl (View plainStyles ?N) \<longrightarrow>
           0 \<le> scrollOffset nd \<and> scrollOffset nu \<le> scrollOffset ?N \<and>
           (scrollOffset ?N \<le> getMaxScroll ?N \<longrightarrow> scrollOffset nu \<le> getMaxScroll ?N)"
    by blast
  from dr vn View_viewingFortyLines(2) have "scrollOffset nu \<le> 15" by simp
  from sd vn half getMaxScroll_viewingFortyLines(2) have g3: "scrollOffset nd = 20" by simp
  from sn vn half have g4: "scrollOffset nu = 5" by simp
  from g1 g2 g3 g4 d u dn un show ?thesis by simp
qed

subsection \<open>C4: the scroll offset stays in range\<close>






lemma runLoop_scroll_keys_example:
  "map_sum id (\<lambda>(m', w'). scrollOffset m')
     (runLoop fortyLineShell plainStyles viewingFortyLines
        (map KeyMsg [''pgdown'', ''down'', ''G'', ''pgup'', ''up'', ''g'', ''pgdown'', ''pgdown''])
        ()) = Inr 20"
  by code_simp




subsection \<open>C10: the slice of the visible lines\<close>

text \<open>
  C10. The claim fails on the program. A file that was added and not committed is shown
  in a terminal of three rows (viewport height 1). The keys \<open>d\<close>, \<open>G\<close> open the diff of
  three lines and scroll to its end (offset 2); \<open>d\<close> returns to the list with the offset
  kept; the space key unstages the file; \<open>d\<close> opens the viewer again, on the diff of the
  now untracked file, which is empty (one line). The state reached is in the diff viewer
  with \<open>scrollOffset = 2\<close> over a text of one line, and \<open>View\<close> panics on the slice
  \<^verbatim>\<open>lines[2:1]\<close>.
\<close>

theorem stale_scroll_offset_panics:
  "map_sum id
     (\<lambda>(m', w'). (diffMode m', status (files m' ! 0), scrollOffset m',
                  length (splitLines (diffContent m')), View plainStyles m'))
     (updates addedFileShell (initialModel addedFile)
        [WindowSizeMsg 80 3, KeyMsg ''d'', KeyMsg ''G'', KeyMsg ''d'', KeyMsg '' '', KeyMsg ''d'']
        ()) =
     Inr (True, Unstaged, 2, 1, Inl SliceBoundsOutOfRange) \<and>
   map_sum id (\<lambda>(m', w'). (diffMode m', scrollOffset m', length (splitLines (diffContent m'))))
     (runLoop addedFileShell plainStyles (initialModel addedFile)
        [WindowSizeMsg 80 3, KeyMsg ''d'', KeyMsg ''G''] ()) = Inr (True, 2, 3) \<and>
   map_sum id (\<lambda>(m', w'). (diffMode m', status (files m' ! 0), scrollOffset m'))
     (runLoop addedFileShell plainStyles (initialModel addedFile)
        [WindowSizeMsg 80 3, KeyMsg ''d'', KeyMsg ''G'', KeyMsg ''d'', KeyMsg '' ''] ()) =
     Inr (False, Unstaged, 2) \<and>
   runLoop addedFileShell plainStyles (initialModel addedFile)
     [WindowSizeMsg 80 3, KeyMsg ''d'', KeyMsg ''G'', KeyMsg ''d'', KeyMsg '' '', KeyMsg ''d'']
     () = Inl SliceBoundsOutOfRange"
  by code_simp

end
